theory Spec2Isabelle
  imports Complex_Main "HOL-Library.Product_Lexorder" "HOL-Library.Multiset"
begin

section \<open>Bivariate polynomials of bounded degree (Polynome.py)\<close>

text \<open>
  A shallow embedding of the class \<open>Polynome2D\<close> of \<open>src/Polynome.py\<close>.

  Numbers (coefficients, evaluation points, integration bounds) are modelled in exact
  arithmetic, as \<^typ>\<open>real\<close>. Exponents and the maximal degree are Python integers, modelled
  as \<^typ>\<open>int\<close>. A term of the list \<open>coefficients\<close> is the tuple
  \<open>(coef, (deg_x, deg_y))\<close>.

  Scope of the arithmetic. Every statement below about a computed number, and about a call
  returning one, is a statement over exact arithmetic: it is what the code does on exact
  numbers (Python's \<open>int\<close> where no negative power and no division occurs,
  \<open>fractions.Fraction\<close> throughout), where \<open>**\<close> and \<open>/\<close> are exact and raise only
  \<open>ZeroDivisionError\<close>. On \<open>float\<close> values Python rounds every result, and raises
  \<open>OverflowError\<close> when a power \<open>x ** n\<close> or the quotient of two integers leaves the float
  range; neither the rounding nor that error is part of the model. What is proved about the
  control flow (which terms are visited, merged, dropped or skipped, which branch is reached,
  which \<open>ValueError\<close> is raised) does not depend on the arithmetic.
\<close>

subsection \<open>Data model\<close>

type_synonym monomial = "real \<times> (int \<times> int)"

record Polynome2D =
  degree :: int
  coefficients :: "monomial list"

text \<open>
  The source raises \<open>ValueError\<close> in two places, told apart by their message only: in
  \<open>_validate_coefficients\<close> (the message holds the exponent pair and the maximal degree)
  and at the head of \<open>__add__\<close>, \<open>__sub__\<close> and \<open>__mul__\<close>. The specification calls
  them \<open>DegreeExceeded\<close> and \<open>DegreeMismatch\<close>. Python itself raises
  \<open>ZeroDivisionError\<close> for a division by zero and for zero raised to a negative power;
  the two are kept apart here so that theorems can say which one occurs.
\<close>

datatype error =
  DegreeExceeded int int int
| DegreeMismatch
| DivisionByZero
| ZeroToNegativePower

subsection \<open>Python's arithmetic\<close>

text \<open>
  \<open>x ** n\<close> for an integer exponent, over exact numbers: \<open>0 ** 0\<close> is \<open>1\<close>, and
  \<open>0 ** n\<close> raises \<open>ZeroDivisionError\<close> for \<open>n < 0\<close>. The \<open>OverflowError\<close> of a float
  power out of range (\<open>1e200 ** 2\<close>) is outside the model.
\<close>

definition py_pow :: "real \<Rightarrow> int \<Rightarrow> error + real" where
  "py_pow x n = (if x = 0 \<and> n < 0 then Inl ZeroToNegativePower else Inr (power_int x n))"

text \<open>
  \<open>a / b\<close>: true division over exact numbers, raising \<open>ZeroDivisionError\<close> on a zero
  divisor. The rounding of a float quotient (\<open>1 / 3\<close>) and the \<open>OverflowError\<close> of an
  integer quotient out of the float range are outside the model.
\<close>

definition py_div :: "real \<Rightarrow> real \<Rightarrow> error + real" where
  "py_div a b = (if b = 0 then Inl DivisionByZero else Inr (a / b))"

text \<open>Sequencing of computations that may raise: the first exception ends the call.\<close>

definition err_bind :: "error + 'a \<Rightarrow> ('a \<Rightarrow> error + 'b) \<Rightarrow> error + 'b" where
  "err_bind m f = (case m of Inl e \<Rightarrow> Inl e | Inr v \<Rightarrow> f v)"

subsection \<open>Construction and validation\<close>

text \<open>
  \<open>_validate_coefficients\<close>: the loop raises at the first term with an exponent above the
  maximal degree; after the loop the list is returned as it was given.
\<close>

fun validate_loop :: "int \<Rightarrow> monomial list \<Rightarrow> error option" where
  "validate_loop d [] = None"
| "validate_loop d ((coef, (deg_x, deg_y)) # rest) =
     (if deg_x > d \<or> deg_y > d then Some (DegreeExceeded deg_x deg_y d)
      else validate_loop d rest)"

definition validate_coefficients :: "int \<Rightarrow> monomial list \<Rightarrow> error + monomial list" where
  "validate_coefficients d cs =
     (case validate_loop d cs of Some e \<Rightarrow> Inl e | None \<Rightarrow> Inr cs)"

text \<open>\<open>__init__\<close>: stores the degree, then the validated list.\<close>

definition Polynome2D_init :: "monomial list \<Rightarrow> int \<Rightarrow> error + Polynome2D" where
  "Polynome2D_init cs d =
     err_bind (validate_coefficients d cs) (\<lambda>vs. Inr \<lparr>degree = d, coefficients = vs\<rparr>)"

subsection \<open>Evaluation\<close>

fun eval_term :: "real \<Rightarrow> real \<Rightarrow> monomial \<Rightarrow> error + real" where
  "eval_term x y (coef, (deg_x, deg_y)) =
     err_bind (py_pow x deg_x) (\<lambda>px.
     err_bind (py_pow y deg_y) (\<lambda>py.
     Inr (coef * px * py)))"

fun eval_loop :: "real \<Rightarrow> real \<Rightarrow> real \<Rightarrow> monomial list \<Rightarrow> error + real" where
  "eval_loop x y result [] = Inr result"
| "eval_loop x y result (t # rest) =
     (case eval_term x y t of
        Inl e \<Rightarrow> Inl e
      | Inr v \<Rightarrow> eval_loop x y (result + v) rest)"

definition eval_poly :: "Polynome2D \<Rightarrow> real \<Rightarrow> real \<Rightarrow> error + real" where
  "eval_poly self x y = eval_loop x y 0 (coefficients self)"

subsection \<open>Addition, subtraction, multiplication\<close>

text \<open>
  The inner loop of \<open>__add__\<close> (and of \<open>__mul__\<close>, which has the same text): scan
  \<open>new_coeffs\<close> from the front, add the coefficient to the first term with the same exponent
  pair and stop; append the term when the scan finds none.
\<close>

fun add_merge :: "monomial \<Rightarrow> monomial list \<Rightarrow> monomial list" where
  "add_merge (coef, (deg_x, deg_y)) [] = [(coef, (deg_x, deg_y))]"
| "add_merge (coef, (deg_x, deg_y)) ((coef_self, (deg_x_self, deg_y_self)) # rest) =
     (if deg_x_self = deg_x \<and> deg_y_self = deg_y
      then (coef_self + coef, (deg_x_self, deg_y_self)) # rest
      else (coef_self, (deg_x_self, deg_y_self)) # add_merge (coef, (deg_x, deg_y)) rest)"

fun add_loop :: "monomial list \<Rightarrow> monomial list \<Rightarrow> monomial list" where
  "add_loop new_coeffs [] = new_coeffs"
| "add_loop new_coeffs (t # rest) = add_loop (add_merge t new_coeffs) rest"

definition Polynome2D_add :: "Polynome2D \<Rightarrow> Polynome2D \<Rightarrow> error + Polynome2D" where
  "Polynome2D_add self other =
     (if degree self \<noteq> degree other then Inl DegreeMismatch
      else Polynome2D_init (add_loop (coefficients self) (coefficients other)) (degree self))"

text \<open>The inner loop of \<open>__sub__\<close>: as above with the coefficient subtracted, or negated
  when appended.\<close>

fun sub_merge :: "monomial \<Rightarrow> monomial list \<Rightarrow> monomial list" where
  "sub_merge (coef, (deg_x, deg_y)) [] = [(- coef, (deg_x, deg_y))]"
| "sub_merge (coef, (deg_x, deg_y)) ((coef_self, (deg_x_self, deg_y_self)) # rest) =
     (if deg_x_self = deg_x \<and> deg_y_self = deg_y
      then (coef_self - coef, (deg_x_self, deg_y_self)) # rest
      else (coef_self, (deg_x_self, deg_y_self)) # sub_merge (coef, (deg_x, deg_y)) rest)"

fun sub_loop :: "monomial list \<Rightarrow> monomial list \<Rightarrow> monomial list" where
  "sub_loop new_coeffs [] = new_coeffs"
| "sub_loop new_coeffs (t # rest) = sub_loop (sub_merge t new_coeffs) rest"

definition Polynome2D_sub :: "Polynome2D \<Rightarrow> Polynome2D \<Rightarrow> error + Polynome2D" where
  "Polynome2D_sub self other =
     (if degree self \<noteq> degree other then Inl DegreeMismatch
      else Polynome2D_init (sub_loop (coefficients self) (coefficients other)) (degree self))"

text \<open>
  \<open>__mul__\<close>: the two nested loops over the terms of \<open>self\<close> and of \<open>other\<close>. A product
  term is merged into \<open>new_coeffs\<close> only when both summed exponents are within the degree.
\<close>

fun mul_inner :: "int \<Rightarrow> monomial \<Rightarrow> monomial list \<Rightarrow> monomial list \<Rightarrow> monomial list" where
  "mul_inner d t1 new_coeffs [] = new_coeffs"
| "mul_inner d (coef1, (deg_x1, deg_y1)) new_coeffs ((coef2, (deg_x2, deg_y2)) # rest) =
     (let new_coef = coef1 * coef2;
          new_deg_x = deg_x1 + deg_x2;
          new_deg_y = deg_y1 + deg_y2
      in mul_inner d (coef1, (deg_x1, deg_y1))
           (if new_deg_x \<le> d \<and> new_deg_y \<le> d
            then add_merge (new_coef, (new_deg_x, new_deg_y)) new_coeffs
            else new_coeffs)
           rest)"

fun mul_outer :: "int \<Rightarrow> monomial list \<Rightarrow> monomial list \<Rightarrow> monomial list \<Rightarrow> monomial list" where
  "mul_outer d new_coeffs [] other_cs = new_coeffs"
| "mul_outer d new_coeffs (t1 # rest) other_cs =
     mul_outer d (mul_inner d t1 new_coeffs other_cs) rest other_cs"

definition Polynome2D_mul :: "Polynome2D \<Rightarrow> Polynome2D \<Rightarrow> error + Polynome2D" where
  "Polynome2D_mul self other =
     (if degree self \<noteq> degree other then Inl DegreeMismatch
      else Polynome2D_init
             (mul_outer (degree self) [] (coefficients self) (coefficients other))
             (degree self))"

subsection \<open>Rendering\<close>

text \<open>The decimal text of a Python integer, as an f-string prints it.\<close>

definition digit_char :: "nat \<Rightarrow> char" where
  "digit_char n = ''0123456789'' ! n"

fun show_nat :: "nat \<Rightarrow> string" where
  "show_nat n = (if n < 10 then [digit_char n] else show_nat (n div 10) @ [digit_char (n mod 10)])"

declare show_nat.simps [simp del]

definition show_int :: "int \<Rightarrow> string" where
  "show_int i = (if i < 0 then CHR ''-'' # show_nat (nat (- i)) else show_nat (nat i))"

text \<open>\<open>sep.join(parts)\<close>.\<close>

fun join :: "string \<Rightarrow> string list \<Rightarrow> string" where
  "join sep [] = []"
| "join sep [s] = s"
| "join sep (s # t # rest) = s @ sep @ join sep (t # rest)"

text \<open>
  The text of a coefficient depends on its Python type (\<open>3\<close> for an \<open>int\<close>, \<open>3.0\<close> for a
  \<open>float\<close>), which exact arithmetic does not keep; the formatting of a coefficient is
  therefore a parameter \<open>fmt\<close> of the rendering.
\<close>

definition format_term :: "(real \<Rightarrow> string) \<Rightarrow> monomial \<Rightarrow> string" where
  "format_term fmt t =
     (case t of (coef, (deg_x, deg_y)) \<Rightarrow>
        fmt coef @ '' * x^'' @ show_int deg_x @ '' * y^'' @ show_int deg_y)"

text \<open>The sort key \<open>lambda x: (x[1][0], x[1][1])\<close>; Python compares the tuples
  lexicographically, and \<open>sorted\<close> is stable.\<close>

definition sort_key_of :: "monomial \<Rightarrow> int \<times> int" where
  "sort_key_of x = (fst (snd x), snd (snd x))"

fun repr_loop :: "(real \<Rightarrow> string) \<Rightarrow> string list \<Rightarrow> monomial list \<Rightarrow> string list" where
  "repr_loop fmt terms [] = terms"
| "repr_loop fmt terms ((coef, (deg_x, deg_y)) # rest) =
     repr_loop fmt
       (if coef \<noteq> 0 then terms @ [format_term fmt (coef, (deg_x, deg_y))] else terms)
       rest"

definition repr_poly :: "(real \<Rightarrow> string) \<Rightarrow> Polynome2D \<Rightarrow> string" where
  "repr_poly fmt self =
     (let terms = repr_loop fmt [] (sort_key sort_key_of (coefficients self))
      in if terms \<noteq> [] then join '' + '' terms else ''0'')"

subsection \<open>Integration along one axis\<close>

text \<open>
  \<open>np.log\<close> belongs to numpy, not to this repository: it is the parameter \<open>np_log\<close> of the
  model, free to return a value or to fail. The body of the loop of \<open>integrer_x\<close> is kept
  as written, with the test \<open>deg_x != -1\<close> nested under \<open>deg_x >= 0\<close>.
\<close>

definition integrer_x_step ::
  "(real \<Rightarrow> error + real) \<Rightarrow> real \<Rightarrow> real \<Rightarrow> real \<Rightarrow> monomial \<Rightarrow> error + real" where
  "integrer_x_step np_log a b y_value t =
     (case t of (coef, (deg_x, deg_y)) \<Rightarrow>
        if deg_x \<noteq> - 1 then
          err_bind (py_pow y_value deg_y) (\<lambda>py.
          err_bind (py_pow b (deg_x + 1)) (\<lambda>pb.
          err_bind (py_pow a (deg_x + 1)) (\<lambda>pa.
          py_div (coef * py * (pb - pa)) (of_int (deg_x + 1)))))
        else
          err_bind (py_pow y_value deg_y) (\<lambda>py.
          err_bind (py_div b a) (\<lambda>q.
          err_bind (np_log q) (\<lambda>l.
          Inr (coef * py * l)))))"

fun integrer_x_loop ::
  "(real \<Rightarrow> error + real) \<Rightarrow> real \<Rightarrow> real \<Rightarrow> real \<Rightarrow> real \<Rightarrow> monomial list \<Rightarrow> error + real" where
  "integrer_x_loop np_log a b y_value integral [] = Inr integral"
| "integrer_x_loop np_log a b y_value integral ((coef, (deg_x, deg_y)) # rest) =
     (if deg_x \<ge> 0 then
        (case integrer_x_step np_log a b y_value (coef, (deg_x, deg_y)) of
           Inl e \<Rightarrow> Inl e
         | Inr v \<Rightarrow> integrer_x_loop np_log a b y_value (integral + v) rest)
      else integrer_x_loop np_log a b y_value integral rest)"

definition integrer_x ::
  "(real \<Rightarrow> error + real) \<Rightarrow> Polynome2D \<Rightarrow> real \<Rightarrow> real \<Rightarrow> real \<Rightarrow> error + real" where
  "integrer_x np_log self a b y_value =
     integrer_x_loop np_log a b y_value 0 (coefficients self)"

definition integrer_y_step ::
  "(real \<Rightarrow> error + real) \<Rightarrow> real \<Rightarrow> real \<Rightarrow> real \<Rightarrow> monomial \<Rightarrow> error + real" where
  "integrer_y_step np_log c d x_value t =
     (case t of (coef, (deg_x, deg_y)) \<Rightarrow>
        if deg_y \<noteq> - 1 then
          err_bind (py_pow x_value deg_x) (\<lambda>px.
          err_bind (py_pow d (deg_y + 1)) (\<lambda>pd.
          err_bind (py_pow c (deg_y + 1)) (\<lambda>pc.
          py_div (coef * px * (pd - pc)) (of_int (deg_y + 1)))))
        else
          err_bind (py_pow x_value deg_x) (\<lambda>px.
          err_bind (py_div d c) (\<lambda>q.
          err_bind (np_log q) (\<lambda>l.
          Inr (coef * px * l)))))"

fun integrer_y_loop ::
  "(real \<Rightarrow> error + real) \<Rightarrow> real \<Rightarrow> real \<Rightarrow> real \<Rightarrow> real \<Rightarrow> monomial list \<Rightarrow> error + real" where
  "integrer_y_loop np_log c d x_value integral [] = Inr integral"
| "integrer_y_loop np_log c d x_value integral ((coef, (deg_x, deg_y)) # rest) =
     (if deg_y \<ge> 0 then
        (case integrer_y_step np_log c d x_value (coef, (deg_x, deg_y)) of
           Inl e \<Rightarrow> Inl e
         | Inr v \<Rightarrow> integrer_y_loop np_log c d x_value (integral + v) rest)
      else integrer_y_loop np_log c d x_value integral rest)"

definition integrer_y ::
  "(real \<Rightarrow> error + real) \<Rightarrow> Polynome2D \<Rightarrow> real \<Rightarrow> real \<Rightarrow> real \<Rightarrow> error + real" where
  "integrer_y np_log self c d x_value =
     integrer_y_loop np_log c d x_value 0 (coefficients self)"

text \<open>The polynomial of the usage example that ends \<open>Polynome.py\<close>: \<open>3x^2 - 4y + 5xy\<close>.\<close>

definition coeffs1 :: "monomial list" where
  "coeffs1 = [(3, (2, 0)), (- 4, (0, 1)), (5, (1, 1))]"

definition poly :: Polynome2D where
  "poly = \<lparr>degree = 2, coefficients = coeffs1\<rparr>"

section \<open>Auxiliary notions used to state the properties\<close>

text \<open>The value of one term at \<open>(x, y)\<close>, and the condition under which some power of
  the evaluation loop raises: a zero base with a negative exponent.\<close>

definition term_value :: "real \<Rightarrow> real \<Rightarrow> monomial \<Rightarrow> real" where
  "term_value x y t = fst t * power_int x (fst (snd t)) * power_int y (snd (snd t))"

definition pow_raises :: "real \<Rightarrow> real \<Rightarrow> monomial list \<Rightarrow> bool" where
  "pow_raises x y ts \<longleftrightarrow>
     (x = 0 \<and> (\<exists>t \<in> set ts. fst (snd t) < 0)) \<or> (y = 0 \<and> (\<exists>t \<in> set ts. snd (snd t) < 0))"

text \<open>The product of two terms, the full cross product in the order of the two nested
  loops of \<open>__mul__\<close>, the test of the truncation, and the sum of the coefficients that
  a term list holds at one exponent pair.\<close>

definition mul_term :: "monomial \<Rightarrow> monomial \<Rightarrow> monomial" where
  "mul_term t1 t2 = (fst t1 * fst t2, (fst (snd t1) + fst (snd t2), snd (snd t1) + snd (snd t2)))"

definition cross_product :: "monomial list \<Rightarrow> monomial list \<Rightarrow> monomial list" where
  "cross_product ps qs = concat (map (\<lambda>t1. map (mul_term t1) qs) ps)"

definition within_degree :: "int \<Rightarrow> monomial \<Rightarrow> bool" where
  "within_degree d t \<longleftrightarrow> fst (snd t) \<le> d \<and> snd (snd t) \<le> d"

definition coef_at :: "int \<times> int \<Rightarrow> monomial list \<Rightarrow> real" where
  "coef_at e ts = sum_list (map fst (filter (\<lambda>t. snd t = e) ts))"

text \<open>An instance of the parameter \<open>np_log\<close>: the natural logarithm of the reals.\<close>

definition log_of :: "real \<Rightarrow> error + real" where
  "log_of v = Inr (ln v)"

text \<open>The closed form that one term adds to the integral along \<open>x\<close> (along \<open>y\<close>), and
  the condition under which the loop of \<open>integrer_x\<close> (\<open>integrer_y\<close>) raises: the fixed value
  is zero and a term that passes the guard has a negative exponent on the other axis.\<close>

definition x_contribution :: "real \<Rightarrow> real \<Rightarrow> real \<Rightarrow> monomial \<Rightarrow> real" where
  "x_contribution a b y_value t =
     fst t * power_int y_value (snd (snd t))
       * (power_int b (fst (snd t) + 1) - power_int a (fst (snd t) + 1))
       / of_int (fst (snd t) + 1)"

definition y_contribution :: "real \<Rightarrow> real \<Rightarrow> real \<Rightarrow> monomial \<Rightarrow> real" where
  "y_contribution c d x_value t =
     fst t * power_int x_value (fst (snd t))
       * (power_int d (snd (snd t) + 1) - power_int c (snd (snd t) + 1))
       / of_int (snd (snd t) + 1)"

definition x_raises :: "real \<Rightarrow> monomial list \<Rightarrow> bool" where
  "x_raises y_value ts \<longleftrightarrow>
     y_value = 0 \<and> (\<exists>t \<in> set ts. 0 \<le> fst (snd t) \<and> snd (snd t) < 0)"

definition y_raises :: "real \<Rightarrow> monomial list \<Rightarrow> bool" where
  "y_raises x_value ts \<longleftrightarrow>
     x_value = 0 \<and> (\<exists>t \<in> set ts. 0 \<le> snd (snd t) \<and> fst (snd t) < 0)"

text \<open>An instance of the parameter \<open>fmt\<close>: the text of a coefficient that is a Python
  \<open>int\<close>.\<close>

definition fmt_int :: "real \<Rightarrow> string" where
  "fmt_int c = show_int \<lfloor>c\<rfloor>"

text \<open>The terms that the specification asks the rendering to show: sorted by the key, those
  with a zero coefficient left out.\<close>

definition rendered_terms :: "Polynome2D \<Rightarrow> monomial list" where
  "rendered_terms self =
     filter (\<lambda>t. fst t \<noteq> 0) (sort_key sort_key_of (coefficients self))"

section \<open>Construction\<close>

lemma validate_loop_None:
  "validate_loop d cs = None \<longleftrightarrow> (\<forall>t \<in> set cs. fst (snd t) \<le> d \<and> snd (snd t) \<le> d)"
  by (induction d cs rule: validate_loop.induct) auto

lemma validate_loop_Some:
  "validate_loop d cs = Some e \<Longrightarrow>
     \<exists>t \<in> set cs. e = DegreeExceeded (fst (snd t)) (snd (snd t)) d
        \<and> (fst (snd t) > d \<or> snd (snd t) > d)"
  by (induction d cs rule: validate_loop.induct) (auto split: if_splits)

lemma init_Inr_iff:
  "Polynome2D_init cs d = Inr P \<longleftrightarrow>
     (\<forall>t \<in> set cs. fst (snd t) \<le> d \<and> snd (snd t) \<le> d) \<and> P = \<lparr>degree = d, coefficients = cs\<rparr>"
  by (auto simp: Polynome2D_init_def validate_coefficients_def err_bind_def
      validate_loop_None[symmetric] split: option.splits)

text \<open>
  Claim C3. Construction from a term list and a maximal degree fails exactly when some term
  has \<open>deg_x\<close> or \<open>deg_y\<close> above the maximal degree, and the failure is the
  \<open>DegreeExceeded\<close> error of such a term. Nothing else is checked: when every exponent is
  at most the maximal degree (equal to it, negative, repeated, with a zero coefficient), the
  construction succeeds and the object holds the degree and the very list it was given.
\<close>

theorem construction_validation:
  "((\<exists>e. Polynome2D_init cs d = Inl e) \<longleftrightarrow> (\<exists>t \<in> set cs. fst (snd t) > d \<or> snd (snd t) > d))
   \<and> (\<forall>e. Polynome2D_init cs d = Inl e \<longrightarrow>
         (\<exists>t \<in> set cs. e = DegreeExceeded (fst (snd t)) (snd (snd t)) d
            \<and> (fst (snd t) > d \<or> snd (snd t) > d)))
   \<and> ((\<forall>t \<in> set cs. fst (snd t) \<le> d \<and> snd (snd t) \<le> d) \<longrightarrow>
         Polynome2D_init cs d = Inr \<lparr>degree = d, coefficients = cs\<rparr>)"
proof (intro conjI allI impI)
  show "(\<exists>e. Polynome2D_init cs d = Inl e) \<longleftrightarrow> (\<exists>t \<in> set cs. fst (snd t) > d \<or> snd (snd t) > d)"
  proof (cases "validate_loop d cs")
    case None
    then show ?thesis
      using validate_loop_None[of d cs]
      by (auto simp: Polynome2D_init_def validate_coefficients_def err_bind_def)
  next
    case (Some e)
    then show ?thesis
      using validate_loop_Some[of d cs e]
      by (auto simp: Polynome2D_init_def validate_coefficients_def err_bind_def)
  qed
next
  fix e assume "Polynome2D_init cs d = Inl e"
  then have "validate_loop d cs = Some e"
    by (auto simp: Polynome2D_init_def validate_coefficients_def err_bind_def split: option.splits)
  then show "\<exists>t \<in> set cs. e = DegreeExceeded (fst (snd t)) (snd (snd t)) d
            \<and> (fst (snd t) > d \<or> snd (snd t) > d)"
    by (rule validate_loop_Some)
next
  assume "\<forall>t \<in> set cs. fst (snd t) \<le> d \<and> snd (snd t) \<le> d"
  then show "Polynome2D_init cs d = Inr \<lparr>degree = d, coefficients = cs\<rparr>"
    by (simp add: init_Inr_iff)
qed

text \<open>At degree 2: a zero coefficient at \<open>(2, 2)\<close> and a repeated negative exponent are
  accepted and stored as given; an exponent 3 is refused.\<close>

theorem construction_validation_witness:
  "Polynome2D_init [(0, (2, 2)), (1, (- 3, 0)), (5, (- 3, 0))] 2
     = Inr \<lparr>degree = 2, coefficients = [(0, (2, 2)), (1, (- 3, 0)), (5, (- 3, 0))]\<rparr>
   \<and> Polynome2D_init [(1, (0, 0)), (1, (3, 0))] 2 = Inl (DegreeExceeded 3 0 2)"
  using construction_validation [of "[(0, (2, 2)), (1, (- 3, 0)), (5, (- 3, 0))]" 2]
    construction_validation [of "[(1, (0, 0)), (1, (3, 0))]" 2]
  by (simp add: Polynome2D_init_def validate_coefficients_def err_bind_def)

section \<open>Degree mismatch\<close>

text \<open>
  Claim C7. Addition, subtraction and multiplication of two polynomials of different
  maximal degree each fail with \<open>DegreeMismatch\<close> and return no polynomial; with equal
  degrees none of the three fails with that error.
\<close>

theorem degree_mismatch:
  "(degree P \<noteq> degree Q \<longrightarrow>
      Polynome2D_add P Q = Inl DegreeMismatch
    \<and> Polynome2D_sub P Q = Inl DegreeMismatch
    \<and> Polynome2D_mul P Q = Inl DegreeMismatch)
   \<and> (degree P = degree Q \<longrightarrow>
      Polynome2D_add P Q \<noteq> Inl DegreeMismatch
    \<and> Polynome2D_sub P Q \<noteq> Inl DegreeMismatch
    \<and> Polynome2D_mul P Q \<noteq> Inl DegreeMismatch)"
proof -
  have no_mismatch: "Polynome2D_init cs d \<noteq> Inl DegreeMismatch" for cs d
    using validate_loop_Some[of d cs DegreeMismatch]
    by (auto simp: Polynome2D_init_def validate_coefficients_def err_bind_def split: option.splits)
  show ?thesis
    by (simp add: Polynome2D_add_def Polynome2D_sub_def Polynome2D_mul_def no_mismatch)
qed

theorem degree_mismatch_witness:
  "Polynome2D_add poly \<lparr>degree = 3, coefficients = coeffs1\<rparr> = Inl DegreeMismatch
   \<and> Polynome2D_sub poly \<lparr>degree = 3, coefficients = coeffs1\<rparr> = Inl DegreeMismatch
   \<and> Polynome2D_mul poly \<lparr>degree = 3, coefficients = coeffs1\<rparr> = Inl DegreeMismatch
   \<and> Polynome2D_add poly poly \<noteq> Inl DegreeMismatch
   \<and> Polynome2D_sub poly poly \<noteq> Inl DegreeMismatch
   \<and> Polynome2D_mul poly poly \<noteq> Inl DegreeMismatch"
  using degree_mismatch [of poly "\<lparr>degree = 3, coefficients = coeffs1\<rparr>"]
    degree_mismatch [of poly poly]
  by (simp add: poly_def)

section \<open>The usage example\<close>

text \<open>
  Claim C6, as the code computes it. For \<open>3x^2 - 4y + 5xy\<close> with maximal degree 2,
  \<open>integrer_x(1, 2, y_value=0)\<close> returns 7 and \<open>integrer_y(0, 1, x_value=1)\<close> returns
  \<open>3.5\<close>: along \<open>y\<close> the three terms contribute \<open>3\<close>, \<open>-2\<close> and \<open>2.5\<close>.
\<close>

theorem demo_integrals:
  "integrer_x np_log poly 1 2 0 = Inr 7 \<and> integrer_y np_log poly 0 1 1 = Inr (7 / 2)"
  by (simp add: integrer_x_def integrer_y_def poly_def coeffs1_def
      integrer_x_step_def integrer_y_step_def py_pow_def py_div_def err_bind_def)

text \<open>The value \<open>-1.5\<close> is not what \<open>integrer_y(0, 1, x_value=1)\<close> returns.\<close>

theorem demo_integrer_y_counterexample:
  "integrer_y log_of poly 0 1 1 \<noteq> Inr (- 3 / 2)"
  by (simp add: integrer_y_def poly_def coeffs1_def
      integrer_y_step_def py_pow_def py_div_def err_bind_def)

section \<open>Evaluation and addition\<close>

lemma eval_term_eq:
  "eval_term x y t = (if pow_raises x y [t] then Inl ZeroToNegativePower else Inr (term_value x y t))"
  by (cases t rule: prod_cases3)
     (simp add: pow_raises_def term_value_def py_pow_def err_bind_def)

lemma pow_raises_Nil: "\<not> pow_raises x y []"
  by (simp add: pow_raises_def)

lemma pow_raises_Cons:
  "pow_raises x y (t # ts) \<longleftrightarrow> pow_raises x y [t] \<or> pow_raises x y ts"
  by (auto simp: pow_raises_def)

lemma eval_loop_eq:
  "eval_loop x y r ts =
     (if pow_raises x y ts then Inl ZeroToNegativePower
      else Inr (r + sum_list (map (term_value x y) ts)))"
proof (induction ts arbitrary: r)
  case Nil
  then show ?case by (simp add: pow_raises_Nil)
next
  case (Cons t ts)
  show ?case
  proof (cases "pow_raises x y [t]")
    case True
    then show ?thesis
      by (simp add: eval_term_eq pow_raises_Cons[of x y t ts])
  next
    case False
    then show ?thesis
      by (simp add: eval_term_eq Cons.IH pow_raises_Cons[of x y t ts] add.assoc)
  qed
qed

lemma eval_poly_eq:
  "eval_poly P x y =
     (if pow_raises x y (coefficients P) then Inl ZeroToNegativePower
      else Inr (sum_list (map (term_value x y) (coefficients P))))"
  by (simp add: eval_poly_def eval_loop_eq)

lemma pow_raises_exps_iff:
  "pow_raises x y ts \<longleftrightarrow>
     (x = 0 \<and> (\<exists>e \<in> snd ` set ts. fst e < 0)) \<or> (y = 0 \<and> (\<exists>e \<in> snd ` set ts. snd e < 0))"
  by (simp add: pow_raises_def)

lemma exps_add_merge: "snd ` set (add_merge t ts) = insert (snd t) (snd ` set ts)"
  by (induction t ts rule: add_merge.induct) auto

lemma exps_add_loop: "snd ` set (add_loop acc ts) = snd ` set acc \<union> snd ` set ts"
  by (induction ts arbitrary: acc) (simp_all add: exps_add_merge)

lemma value_add_merge:
  "sum_list (map (term_value x y) (add_merge t ts)) =
     sum_list (map (term_value x y) ts) + term_value x y t"
  by (induction t ts rule: add_merge.induct) (simp_all add: term_value_def algebra_simps)

lemma value_add_loop:
  "sum_list (map (term_value x y) (add_loop acc ts)) =
     sum_list (map (term_value x y) acc) + sum_list (map (term_value x y) ts)"
  by (induction ts arbitrary: acc) (simp_all add: value_add_merge)

lemma pow_raises_add_loop:
  "pow_raises x y (add_loop acc ts) \<longleftrightarrow> pow_raises x y acc \<or> pow_raises x y ts"
  unfolding pow_raises_exps_iff exps_add_loop by blast

lemma bounded_exps_iff:
  "(\<forall>t \<in> set us. fst (snd t) \<le> d \<and> snd (snd t) \<le> d) \<longleftrightarrow>
   (\<forall>e \<in> snd ` set us. fst e \<le> d \<and> snd e \<le> (d::int))"
  by simp

lemma within_add_loop:
  "(\<forall>t \<in> set (add_loop acc ts). fst (snd t) \<le> d \<and> snd (snd t) \<le> d) \<longleftrightarrow>
   (\<forall>t \<in> set acc. fst (snd t) \<le> d \<and> snd (snd t) \<le> d) \<and>
   (\<forall>t \<in> set ts. fst (snd t) \<le> d \<and> snd (snd t) \<le> d)"
  unfolding bounded_exps_iff exps_add_loop by blast

text \<open>
  Claim C1. For polynomials \<open>P\<close> and \<open>Q\<close> constructed with the same maximal degree,
  \<open>P + Q\<close> is returned, and at every \<open>(x, y)\<close> its evaluation is the outcome of
  \<open>P.eval(x, y) + Q.eval(x, y)\<close>: the sum of the two values, or the exception of the
  first operand that raises. Repeated exponent pairs and zero coefficients are allowed in
  both operands.
\<close>

theorem add_evaluates_to_sum:
  assumes "Polynome2D_init cs1 d = Inr P" and "Polynome2D_init cs2 d = Inr Q"
  shows "\<exists>R. Polynome2D_add P Q = Inr R \<and>
           eval_poly R x y =
             err_bind (eval_poly P x y) (\<lambda>p. err_bind (eval_poly Q x y) (\<lambda>q. Inr (p + q)))"
proof -
  from assms have P: "P = \<lparr>degree = d, coefficients = cs1\<rparr>"
    and Q: "Q = \<lparr>degree = d, coefficients = cs2\<rparr>"
    and b1: "\<forall>t \<in> set cs1. fst (snd t) \<le> d \<and> snd (snd t) \<le> d"
    and b2: "\<forall>t \<in> set cs2. fst (snd t) \<le> d \<and> snd (snd t) \<le> d"
    by (simp_all add: init_Inr_iff)
  let ?R = "\<lparr>degree = d, coefficients = add_loop cs1 cs2\<rparr>"
  have bR: "\<forall>t \<in> set (add_loop cs1 cs2). fst (snd t) \<le> d \<and> snd (snd t) \<le> d"
    using b1 b2 by (simp only: within_add_loop simp_thms)
  have add: "Polynome2D_add P Q = Inr ?R"
    unfolding Polynome2D_add_def P Q using bR by (simp add: init_Inr_iff)
  have ev: "eval_poly ?R x y =
      err_bind (eval_poly P x y) (\<lambda>p. err_bind (eval_poly Q x y) (\<lambda>q. Inr (p + q)))"
    unfolding eval_poly_eq P Q
    by (simp add: pow_raises_add_loop value_add_loop err_bind_def)
  from add ev show ?thesis by blast
qed

text \<open>With a repeated exponent pair and a zero coefficient in the first operand, at
  \<open>(2, 3)\<close>: \<open>6 + 10 = 16\<close>.\<close>

theorem add_evaluates_to_sum_witness:
  "Polynome2D_add \<lparr>degree = 1, coefficients = [(1, (1, 0)), (2, (1, 0)), (0, (0, 1))]\<rparr>
                  \<lparr>degree = 1, coefficients = [(3, (1, 0)), (4, (0, 0))]\<rparr>
     = Inr \<lparr>degree = 1, coefficients = [(4, (1, 0)), (2, (1, 0)), (0, (0, 1)), (4, (0, 0))]\<rparr>
   \<and> eval_poly \<lparr>degree = 1, coefficients = [(4, (1, 0)), (2, (1, 0)), (0, (0, 1)), (4, (0, 0))]\<rparr> 2 3
     = Inr 16
   \<and> eval_poly \<lparr>degree = 1, coefficients = [(1, (1, 0)), (2, (1, 0)), (0, (0, 1))]\<rparr> 2 3 = Inr 6
   \<and> eval_poly \<lparr>degree = 1, coefficients = [(3, (1, 0)), (4, (0, 0))]\<rparr> 2 3 = Inr 10"
proof -
  have h1: "Polynome2D_init [(1, (1, 0)), (2, (1, 0)), (0, (0, 1))] 1
      = Inr \<lparr>degree = 1, coefficients = [(1, (1, 0)), (2, (1, 0)), (0, (0, 1))]\<rparr>"
    by (simp add: Polynome2D_init_def validate_coefficients_def err_bind_def)
  have h2: "Polynome2D_init [(3, (1, 0)), (4, (0, 0))] 1
      = Inr \<lparr>degree = 1, coefficients = [(3, (1, 0)), (4, (0, 0))]\<rparr>"
    by (simp add: Polynome2D_init_def validate_coefficients_def err_bind_def)
  have e1: "eval_poly \<lparr>degree = 1, coefficients = [(1, (1, 0)), (2, (1, 0)), (0, (0, 1))]\<rparr> 2 3 = Inr 6"
    by (simp add: eval_poly_def py_pow_def err_bind_def)
  have e2: "eval_poly \<lparr>degree = 1, coefficients = [(3, (1, 0)), (4, (0, 0))]\<rparr> 2 3 = Inr 10"
    by (simp add: eval_poly_def py_pow_def err_bind_def)
  have a: "Polynome2D_add \<lparr>degree = 1, coefficients = [(1, (1, 0)), (2, (1, 0)), (0, (0, 1))]\<rparr>
                  \<lparr>degree = 1, coefficients = [(3, (1, 0)), (4, (0, 0))]\<rparr>
     = Inr \<lparr>degree = 1, coefficients = [(4, (1, 0)), (2, (1, 0)), (0, (0, 1)), (4, (0, 0))]\<rparr>"
    by (simp add: Polynome2D_add_def Polynome2D_init_def validate_coefficients_def err_bind_def)
  show ?thesis
    using add_evaluates_to_sum [OF h1 h2, of 2 3]
    by (simp add: a e1 e2 err_bind_def)
qed

section \<open>Multiplication\<close>

lemma add_loop_append: "add_loop acc (xs @ ys) = add_loop (add_loop acc xs) ys"
  by (induction xs arbitrary: acc) simp_all

lemma mul_term_tuple [simp]:
  "mul_term (c1, (x1, y1)) (c2, (x2, y2)) = (c1 * c2, (x1 + x2, y1 + y2))"
  by (simp add: mul_term_def)

lemma within_degree_tuple [simp]:
  "within_degree d (c, (ex, ey)) \<longleftrightarrow> ex \<le> d \<and> ey \<le> d"
  by (simp add: within_degree_def)

lemma mul_inner_eq:
  "mul_inner d t1 acc qs = add_loop acc (filter (within_degree d) (map (mul_term t1) qs))"
proof (induction qs arbitrary: acc)
  case Nil
  show ?case by (cases t1 rule: prod_cases3) simp
next
  case (Cons q qs)
  show ?case
    using Cons.IH
    by (cases t1 rule: prod_cases3, cases q rule: prod_cases3)
       (simp add: Let_def)
qed

lemma mul_outer_eq:
  "mul_outer d acc ps qs = add_loop acc (filter (within_degree d) (cross_product ps qs))"
  by (induction ps arbitrary: acc) (simp_all add: cross_product_def mul_inner_eq add_loop_append)

lemma distinct_add_merge:
  "distinct (map snd ts) \<Longrightarrow> distinct (map snd (add_merge t ts))"
proof (induction t ts rule: add_merge.induct)
  case (1 coef deg_x deg_y)
  show ?case by simp
next
  case (2 coef deg_x deg_y coef_self deg_x_self deg_y_self rest)
  have "snd ` set (add_merge (coef, deg_x, deg_y) rest) = insert (deg_x, deg_y) (snd ` set rest)"
    by (simp add: exps_add_merge)
  with 2 show ?case by auto
qed

lemma distinct_add_loop:
  "distinct (map snd acc) \<Longrightarrow> distinct (map snd (add_loop acc ts))"
  by (induction ts arbitrary: acc) (simp_all add: distinct_add_merge)

lemma coef_at_add_merge:
  "coef_at e (add_merge t ts) = coef_at e ts + (if snd t = e then fst t else 0)"
  by (induction t ts rule: add_merge.induct) (auto simp: coef_at_def)

lemma coef_at_add_loop:
  "coef_at e (add_loop acc ts) = coef_at e acc + coef_at e ts"
proof (induction ts arbitrary: acc)
  case Nil
  show ?case by (simp add: coef_at_def)
next
  case (Cons t ts)
  have "coef_at e (t # ts) = (if snd t = e then fst t else 0) + coef_at e ts"
    by (simp add: coef_at_def)
  then show ?case by (simp add: Cons.IH coef_at_add_merge)
qed

lemma add_merge_no_match:
  "snd t \<notin> snd ` set ts \<Longrightarrow> add_merge t ts = ts @ [t]"
  by (induction t ts rule: add_merge.induct) auto

lemma add_merge_first_match:
  "i < length ts \<Longrightarrow> snd (ts ! i) = snd t \<Longrightarrow> (\<forall>j < i. snd (ts ! j) \<noteq> snd t) \<Longrightarrow>
     add_merge t ts = ts[i := (fst (ts ! i) + fst t, snd t)]"
proof (induction t ts arbitrary: i rule: add_merge.induct)
  case (1 coef deg_x deg_y)
  then show ?case by simp
next
  case (2 coef deg_x deg_y coef_self deg_x_self deg_y_self rest)
  show ?case
  proof (cases i)
    case 0
    with 2 show ?thesis by simp
  next
    case (Suc k)
    from 2(4) Suc have ne: "\<not> (deg_x_self = deg_x \<and> deg_y_self = deg_y)"
      by fastforce
    have k: "k < length rest" using 2(2) Suc by simp
    have m: "snd (rest ! k) = snd (coef, deg_x, deg_y)" using 2(3) Suc by simp
    have f: "\<forall>j < k. snd (rest ! j) \<noteq> snd (coef, deg_x, deg_y)"
    proof (intro allI impI)
      fix j assume "j < k"
      then have "Suc j < i" using Suc by simp
      with 2(4) have "snd (((coef_self, deg_x_self, deg_y_self) # rest) ! Suc j) \<noteq> snd (coef, deg_x, deg_y)"
        by blast
      then show "snd (rest ! j) \<noteq> snd (coef, deg_x, deg_y)" by simp
    qed
    from "2.IH"[OF ne k m f] ne Suc show ?thesis by auto
  qed
qed


lemma within_degree_iff:
  "(\<forall>t \<in> set ts. fst (snd t) \<le> d \<and> snd (snd t) \<le> d) \<longleftrightarrow> (\<forall>t \<in> set ts. within_degree d t)"
  by (simp add: within_degree_def)

lemma mul_result_within:
  "\<forall>t \<in> set (add_loop [] (filter (within_degree d) xs)). within_degree d t"
proof -
  have "\<forall>t \<in> set (filter (within_degree d) xs). fst (snd t) \<le> d \<and> snd (snd t) \<le> d"
    by (simp add: within_degree_def)
  then have "\<forall>t \<in> set (add_loop [] (filter (within_degree d) xs)). fst (snd t) \<le> d \<and> snd (snd t) \<le> d"
    by (simp only: within_add_loop) simp
  then show ?thesis by (simp only: within_degree_iff)
qed

lemma Polynome2D_mul_eq:
  assumes "degree P = degree Q"
  shows "Polynome2D_mul P Q =
     Inr \<lparr>degree = degree P,
          coefficients = add_loop [] (filter (within_degree (degree P))
                            (cross_product (coefficients P) (coefficients Q)))\<rparr>"
proof -
  let ?cs = "add_loop [] (filter (within_degree (degree P))
                            (cross_product (coefficients P) (coefficients Q)))"
  have "\<forall>t \<in> set ?cs. fst (snd t) \<le> degree P \<and> snd (snd t) \<le> degree P"
    using mul_result_within[of "degree P"] by (simp only: within_degree_iff)
  then have "Polynome2D_init ?cs (degree P) = Inr \<lparr>degree = degree P, coefficients = ?cs\<rparr>"
    by (simp only: init_Inr_iff simp_thms)
  with assms show ?thesis
    by (simp add: Polynome2D_mul_def mul_outer_eq)
qed

text \<open>
  Claim C4. For polynomials of equal maximal degree \<open>d\<close>, \<open>__mul__\<close> raises nothing and
  returns the polynomial of degree \<open>d\<close> obtained by merging, in loop order, exactly those
  cross-product terms whose two summed exponents are at most \<open>d\<close>; every other
  cross-product term is dropped. Hence no term of the result has an exponent above \<open>d\<close>,
  the exponent pairs of the result are those of the kept cross-product terms, each once, and
  the coefficient at a pair is the sum of the kept coefficients at that pair. Merging a term
  appends it when no term has its exponent pair, and otherwise adds its coefficient to the
  first term with that pair, in place.
\<close>

theorem mul_truncation:
  assumes "degree P = degree Q"
  shows "\<exists>R. Polynome2D_mul P Q = Inr R
     \<and> degree R = degree P
     \<and> coefficients R = add_loop [] (filter (within_degree (degree P))
                            (cross_product (coefficients P) (coefficients Q)))
     \<and> (\<forall>t \<in> set (coefficients R). fst (snd t) \<le> degree P \<and> snd (snd t) \<le> degree P)
     \<and> snd ` set (coefficients R) =
         snd ` {t \<in> set (cross_product (coefficients P) (coefficients Q)). within_degree (degree P) t}
     \<and> distinct (map snd (coefficients R))
     \<and> (\<forall>e. coef_at e (coefficients R) =
              coef_at e (filter (within_degree (degree P))
                           (cross_product (coefficients P) (coefficients Q))))
     \<and> (\<forall>t ts. snd t \<notin> snd ` set ts \<longrightarrow> add_merge t ts = ts @ [t])
     \<and> (\<forall>t ts i. i < length ts \<and> snd (ts ! i) = snd t \<and> (\<forall>j < i. snd (ts ! j) \<noteq> snd t) \<longrightarrow>
            add_merge t ts = ts[i := (fst (ts ! i) + fst t, snd t)])"
proof -
  let ?xs = "filter (within_degree (degree P)) (cross_product (coefficients P) (coefficients Q))"
  let ?R = "\<lparr>degree = degree P, coefficients = add_loop [] ?xs\<rparr>"
  have r: "Polynome2D_mul P Q = Inr ?R"
    using assms by (rule Polynome2D_mul_eq)
  have w: "\<forall>t \<in> set (coefficients ?R). fst (snd t) \<le> degree P \<and> snd (snd t) \<le> degree P"
    using mul_result_within[of "degree P"] by (simp add: within_degree_iff)
  have e: "snd ` set (coefficients ?R) =
         snd ` {t \<in> set (cross_product (coefficients P) (coefficients Q)). within_degree (degree P) t}"
    by (simp add: exps_add_loop)
  have d: "distinct (map snd (coefficients ?R))"
    by (simp add: distinct_add_loop)
  have c: "\<forall>e. coef_at e (coefficients ?R) = coef_at e ?xs"
    by (simp add: coef_at_add_loop) (simp add: coef_at_def)
  have m1: "\<forall>t ts. snd t \<notin> snd ` set ts \<longrightarrow> add_merge t ts = ts @ [t]"
    using add_merge_no_match by blast
  have m2: "\<forall>t ts i. i < length ts \<and> snd (ts ! i) = snd t \<and> (\<forall>j < i. snd (ts ! j) \<noteq> snd t) \<longrightarrow>
            add_merge t ts = ts[i := (fst (ts ! i) + fst t, snd t)]"
    using add_merge_first_match by blast
  show ?thesis
  proof (intro exI[of _ ?R] conjI)
    show "Polynome2D_mul P Q = Inr ?R" by (rule r)
    show "degree ?R = degree P" by simp
    show "coefficients ?R = add_loop [] ?xs" by simp
    show "\<forall>t \<in> set (coefficients ?R). fst (snd t) \<le> degree P \<and> snd (snd t) \<le> degree P"
      by (rule w)
    show "snd ` set (coefficients ?R) =
         snd ` {t \<in> set (cross_product (coefficients P) (coefficients Q)). within_degree (degree P) t}"
      by (rule e)
    show "distinct (map snd (coefficients ?R))" by (rule d)
    show "\<forall>e. coef_at e (coefficients ?R) = coef_at e ?xs" by (rule c)
    show "\<forall>t ts. snd t \<notin> snd ` set ts \<longrightarrow> add_merge t ts = ts @ [t]" by (rule m1)
    show "\<forall>t ts i. i < length ts \<and> snd (ts ! i) = snd t \<and> (\<forall>j < i. snd (ts ! j) \<noteq> snd t) \<longrightarrow>
            add_merge t ts = ts[i := (fst (ts ! i) + fst t, snd t)]" by (rule m2)
  qed
qed

text \<open>Two polynomials of degree 2 with an \<open>x^2\<close> term each: \<open>(x^2 + 1)(3x^2 + 2)\<close>
  loses \<open>3x^4\<close> and keeps \<open>5x^2 + 2\<close>.\<close>

theorem mul_truncation_witness:
  "Polynome2D_mul \<lparr>degree = 2, coefficients = [(1, (2, 0)), (1, (0, 0))]\<rparr>
                  \<lparr>degree = 2, coefficients = [(3, (2, 0)), (2, (0, 0))]\<rparr>
     = Inr \<lparr>degree = 2, coefficients = [(5, (2, 0)), (2, (0, 0))]\<rparr>"
proof -
  have a: "Polynome2D_mul \<lparr>degree = 2, coefficients = [(1, (2, 0)), (1, (0, 0))]\<rparr>
                  \<lparr>degree = 2, coefficients = [(3, (2, 0)), (2, (0, 0))]\<rparr>
     = Inr \<lparr>degree = 2, coefficients = [(5, (2, 0)), (2, (0, 0))]\<rparr>"
    by (simp add: Polynome2D_mul_def Polynome2D_init_def validate_coefficients_def err_bind_def)
  show ?thesis
    using mul_truncation [of "\<lparr>degree = 2, coefficients = [(1, (2, 0)), (1, (0, 0))]\<rparr>"
                           "\<lparr>degree = 2, coefficients = [(3, (2, 0)), (2, (0, 0))]\<rparr>"]
    by (simp add: a)
qed

section \<open>Evaluation of a product\<close>

lemma power_int_add_cases:
  fixes x :: real
  assumes "x \<noteq> 0 \<or> (0 \<le> a \<and> 0 \<le> b)"
  shows "power_int x (a + b) = power_int x a * power_int x b"
proof (cases "x = 0")
  case False
  then show ?thesis by (simp add: power_int_add)
next
  case True
  with assms have ab: "0 \<le> a" "0 \<le> b" by simp_all
  then have "a + b = 0 \<longleftrightarrow> a = 0 \<and> b = 0" by linarith
  with True show ?thesis by (simp add: power_int_0_left_if)
qed

lemma term_value_mul_term:
  assumes "\<not> pow_raises x y [t1]" and "\<not> pow_raises x y [t2]"
  shows "term_value x y (mul_term t1 t2) = term_value x y t1 * term_value x y t2"
proof -
  have hx: "x \<noteq> 0 \<or> (0 \<le> fst (snd t1) \<and> 0 \<le> fst (snd t2))"
    using assms by (auto simp: pow_raises_def)
  have hy: "y \<noteq> 0 \<or> (0 \<le> snd (snd t1) \<and> 0 \<le> snd (snd t2))"
    using assms by (auto simp: pow_raises_def)
  show ?thesis
    by (simp add: term_value_def mul_term_def power_int_add_cases[OF hx] power_int_add_cases[OF hy])
qed

lemma pow_raises_mul_term:
  assumes "\<not> pow_raises x y [t1]" and "\<not> pow_raises x y [t2]"
  shows "\<not> pow_raises x y [mul_term t1 t2]"
  using assms by (auto simp: pow_raises_def mul_term_def)

lemma pow_raises_member:
  "\<not> pow_raises x y ts \<Longrightarrow> t \<in> set ts \<Longrightarrow> \<not> pow_raises x y [t]"
  by (auto simp: pow_raises_def)

lemma pow_raises_all:
  "(\<forall>t \<in> set ts. \<not> pow_raises x y [t]) \<Longrightarrow> \<not> pow_raises x y ts"
  by (auto simp: pow_raises_def)

lemma value_map_mul_term:
  assumes "\<not> pow_raises x y [t1]" and "\<not> pow_raises x y qs"
  shows "sum_list (map (term_value x y) (map (mul_term t1) qs)) =
           term_value x y t1 * sum_list (map (term_value x y) qs)"
  using assms(2)
proof (induction qs)
  case Nil
  show ?case by simp
next
  case (Cons q qs)
  from Cons.prems have q: "\<not> pow_raises x y [q]" and qs: "\<not> pow_raises x y qs"
    by (simp_all add: pow_raises_Cons[of x y q qs])
  show ?case
    using Cons.IH[OF qs]
    by (simp add: term_value_mul_term[OF assms(1) q] algebra_simps)
qed

lemma value_cross_product:
  assumes "\<not> pow_raises x y ps" and "\<not> pow_raises x y qs"
  shows "sum_list (map (term_value x y) (cross_product ps qs)) =
           sum_list (map (term_value x y) ps) * sum_list (map (term_value x y) qs)"
  using assms(1)
proof (induction ps)
  case Nil
  show ?case by (simp add: cross_product_def)
next
  case (Cons p ps)
  from Cons.prems have p: "\<not> pow_raises x y [p]" and ps: "\<not> pow_raises x y ps"
    by (simp_all add: pow_raises_Cons[of x y p ps])
  have "cross_product (p # ps) qs = map (mul_term p) qs @ cross_product ps qs"
    by (simp add: cross_product_def)
  then show ?case
    using Cons.IH[OF ps] value_map_mul_term[OF p assms(2)]
    by (simp add: algebra_simps)
qed

lemma pow_raises_cross_product:
  assumes "\<not> pow_raises x y ps" and "\<not> pow_raises x y qs"
  shows "\<not> pow_raises x y (cross_product ps qs)"
proof (rule pow_raises_all, rule ballI)
  fix t assume "t \<in> set (cross_product ps qs)"
  then obtain p q where "p \<in> set ps" "q \<in> set qs" "t = mul_term p q"
    by (auto simp: cross_product_def)
  with assms show "\<not> pow_raises x y [t]"
    using pow_raises_mul_term pow_raises_member by blast
qed


lemma eval_poly_Inr_iff:
  "eval_poly P x y = Inr v \<longleftrightarrow>
     \<not> pow_raises x y (coefficients P) \<and> v = sum_list (map (term_value x y) (coefficients P))"
  by (auto simp: eval_poly_eq)

lemma cross_product_member:
  "t \<in> set (cross_product ps qs) \<longleftrightarrow> (\<exists>p \<in> set ps. \<exists>q \<in> set qs. t = mul_term p q)"
  by (auto simp: cross_product_def)

text \<open>
  Claim C2, as the code has it, over exact arithmetic. Let \<open>P\<close> and \<open>Q\<close> be constructed
  with the same maximal degree \<open>d\<close>, such that no pair of their terms has a summed exponent
  above \<open>d\<close> (nothing is truncated), and let \<open>(x, y)\<close> be a point where \<open>P.eval\<close> and
  \<open>Q.eval\<close> both return a value. Then \<open>P * Q\<close> is returned and its evaluation at
  \<open>(x, y)\<close> is the product of the two values. Float rounding and the \<open>OverflowError\<close> of a
  float power are outside the statement.
\<close>

theorem mul_evaluates_to_product:
  assumes "Polynome2D_init cs1 d = Inr P" and "Polynome2D_init cs2 d = Inr Q"
    and "\<forall>t1 \<in> set cs1. \<forall>t2 \<in> set cs2.
           fst (snd t1) + fst (snd t2) \<le> d \<and> snd (snd t1) + snd (snd t2) \<le> d"
    and "eval_poly P x y = Inr p" and "eval_poly Q x y = Inr q"
  shows "\<exists>R. Polynome2D_mul P Q = Inr R \<and> eval_poly R x y = Inr (p * q)"
proof -
  from assms(1,2) have P: "P = \<lparr>degree = d, coefficients = cs1\<rparr>"
    and Q: "Q = \<lparr>degree = d, coefficients = cs2\<rparr>"
    by (simp_all add: init_Inr_iff)
  from assms(4) have np: "\<not> pow_raises x y cs1"
    and p: "p = sum_list (map (term_value x y) cs1)"
    by (simp_all add: eval_poly_Inr_iff P)
  from assms(5) have nq: "\<not> pow_raises x y cs2"
    and q: "q = sum_list (map (term_value x y) cs2)"
    by (simp_all add: eval_poly_Inr_iff Q)
  have "\<forall>t \<in> set (cross_product cs1 cs2). within_degree d t"
  proof
    fix t assume "t \<in> set (cross_product cs1 cs2)"
    then obtain t1 t2 where m: "t1 \<in> set cs1" "t2 \<in> set cs2" and t: "t = mul_term t1 t2"
      by (auto simp: cross_product_member)
    from assms(3) m have "fst (snd t1) + fst (snd t2) \<le> d \<and> snd (snd t1) + snd (snd t2) \<le> d"
      by blast
    then show "within_degree d t"
      by (simp add: t within_degree_def mul_term_def)
  qed
  then have keep: "filter (within_degree d) (cross_product cs1 cs2) = cross_product cs1 cs2"
    by (simp only: filter_True)
  let ?R = "\<lparr>degree = d, coefficients = add_loop [] (cross_product cs1 cs2)\<rparr>"
  have deg: "degree P = degree Q" by (simp add: P Q)
  have r: "Polynome2D_mul P Q = Inr ?R"
    using Polynome2D_mul_eq[OF deg] by (simp add: P Q keep)
  have nr: "\<not> pow_raises x y (add_loop [] (cross_product cs1 cs2))"
    using pow_raises_cross_product[OF np nq]
    by (simp add: pow_raises_add_loop pow_raises_Nil)
  have "eval_poly ?R x y = Inr (p * q)"
    using nr by (simp add: eval_poly_eq value_add_loop value_cross_product[OF np nq] p q)
  with r show ?thesis by blast
qed

text \<open>\<open>(x + 2y)(3x + 1)\<close> at \<open>(2, 3)\<close>: \<open>8 * 7 = 56\<close>.\<close>

theorem mul_evaluates_to_product_witness:
  "Polynome2D_mul \<lparr>degree = 2, coefficients = [(1, (1, 0)), (2, (0, 1))]\<rparr>
                  \<lparr>degree = 2, coefficients = [(3, (1, 0)), (1, (0, 0))]\<rparr>
     = Inr \<lparr>degree = 2, coefficients = [(3, (2, 0)), (1, (1, 0)), (6, (1, 1)), (2, (0, 1))]\<rparr>
   \<and> eval_poly \<lparr>degree = 2, coefficients = [(3, (2, 0)), (1, (1, 0)), (6, (1, 1)), (2, (0, 1))]\<rparr> 2 3
     = Inr 56
   \<and> eval_poly \<lparr>degree = 2, coefficients = [(1, (1, 0)), (2, (0, 1))]\<rparr> 2 3 = Inr 8
   \<and> eval_poly \<lparr>degree = 2, coefficients = [(3, (1, 0)), (1, (0, 0))]\<rparr> 2 3 = Inr 7"
proof -
  have h1: "Polynome2D_init [(1, (1, 0)), (2, (0, 1))] 2
      = Inr \<lparr>degree = 2, coefficients = [(1, (1, 0)), (2, (0, 1))]\<rparr>"
    by (simp add: Polynome2D_init_def validate_coefficients_def err_bind_def)
  have h2: "Polynome2D_init [(3, (1, 0)), (1, (0, 0))] 2
      = Inr \<lparr>degree = 2, coefficients = [(3, (1, 0)), (1, (0, 0))]\<rparr>"
    by (simp add: Polynome2D_init_def validate_coefficients_def err_bind_def)
  have h3: "\<forall>t1 \<in> set [(1::real, (1::int, 0::int)), (2, (0, 1))].
            \<forall>t2 \<in> set [(3::real, (1::int, 0::int)), (1, (0, 0))].
           fst (snd t1) + fst (snd t2) \<le> 2 \<and> snd (snd t1) + snd (snd t2) \<le> 2"
    by simp
  have e1: "eval_poly \<lparr>degree = 2, coefficients = [(1, (1, 0)), (2, (0, 1))]\<rparr> 2 3 = Inr 8"
    by (simp add: eval_poly_def py_pow_def err_bind_def)
  have e2: "eval_poly \<lparr>degree = 2, coefficients = [(3, (1, 0)), (1, (0, 0))]\<rparr> 2 3 = Inr 7"
    by (simp add: eval_poly_def py_pow_def err_bind_def)
  have m: "Polynome2D_mul \<lparr>degree = 2, coefficients = [(1, (1, 0)), (2, (0, 1))]\<rparr>
                  \<lparr>degree = 2, coefficients = [(3, (1, 0)), (1, (0, 0))]\<rparr>
     = Inr \<lparr>degree = 2, coefficients = [(3, (2, 0)), (1, (1, 0)), (6, (1, 1)), (2, (0, 1))]\<rparr>"
    by (simp add: Polynome2D_mul_def Polynome2D_init_def validate_coefficients_def err_bind_def)
  show ?thesis
    using mul_evaluates_to_product [OF h1 h2 h3 e1 e2]
    by (simp add: m e1 e2)
qed

text \<open>
  Without the condition on the two evaluations the equation fails: with maximal degree 1,
  \<open>P = x^-1\<close> and \<open>Q = x\<close> are accepted by the constructor and nothing is truncated
  (\<open>-1 + 1 \<le> 1\<close>); \<open>P * Q\<close> is the constant 1 and evaluates to 1 at \<open>(0, 0)\<close>, where
  \<open>P.eval\<close> raises \<open>ZeroDivisionError\<close>.
\<close>

theorem mul_evaluates_to_product_counterexample:
  "Polynome2D_init [(1, (- 1, 0))] 1 = Inr \<lparr>degree = 1, coefficients = [(1, (- 1, 0))]\<rparr>
   \<and> Polynome2D_init [(1, (1, 0))] 1 = Inr \<lparr>degree = 1, coefficients = [(1, (1, 0))]\<rparr>
   \<and> (- 1 :: int) + 1 \<le> 1 \<and> (0 :: int) + 0 \<le> 1
   \<and> Polynome2D_mul \<lparr>degree = 1, coefficients = [(1, (- 1, 0))]\<rparr>
                    \<lparr>degree = 1, coefficients = [(1, (1, 0))]\<rparr>
       = Inr \<lparr>degree = 1, coefficients = [(1, (0, 0))]\<rparr>
   \<and> eval_poly \<lparr>degree = 1, coefficients = [(1, (0, 0))]\<rparr> 0 0 = Inr 1
   \<and> eval_poly \<lparr>degree = 1, coefficients = [(1, (- 1, 0))]\<rparr> 0 0 = Inl ZeroToNegativePower
   \<and> eval_poly \<lparr>degree = 1, coefficients = [(1, (1, 0))]\<rparr> 0 0 = Inr 0"
  by (simp add: Polynome2D_mul_def Polynome2D_init_def validate_coefficients_def err_bind_def
      eval_poly_def py_pow_def)

section \<open>Integration\<close>

lemma integrer_x_step_eq:
  assumes "0 \<le> deg_x"
  shows "integrer_x_step np_log a b y_value (coef, (deg_x, deg_y)) =
     (if y_value = 0 \<and> deg_y < 0 then Inl ZeroToNegativePower
      else Inr (x_contribution a b y_value (coef, (deg_x, deg_y))))"
proof -
  from assms have ne: "deg_x \<noteq> - 1" and pos: "\<not> deg_x + 1 < 0"
    and nz: "(of_int (deg_x + 1) :: real) \<noteq> 0"
    by simp_all
  show ?thesis
    using ne pos nz
    by (simp add: integrer_x_step_def py_pow_def py_div_def err_bind_def x_contribution_def)
qed

lemma integrer_y_step_eq:
  assumes "0 \<le> deg_y"
  shows "integrer_y_step np_log c d x_value (coef, (deg_x, deg_y)) =
     (if x_value = 0 \<and> deg_x < 0 then Inl ZeroToNegativePower
      else Inr (y_contribution c d x_value (coef, (deg_x, deg_y))))"
proof -
  from assms have ne: "deg_y \<noteq> - 1" and pos: "\<not> deg_y + 1 < 0"
    and nz: "(of_int (deg_y + 1) :: real) \<noteq> 0"
    by simp_all
  show ?thesis
    using ne pos nz
    by (simp add: integrer_y_step_def py_pow_def py_div_def err_bind_def y_contribution_def)
qed

lemma x_raises_Nil: "\<not> x_raises y_value []"
  by (simp add: x_raises_def)

lemma x_raises_Cons:
  "x_raises y_value ((coef, (deg_x, deg_y)) # ts) \<longleftrightarrow>
     (y_value = 0 \<and> 0 \<le> deg_x \<and> deg_y < 0) \<or> x_raises y_value ts"
  by (auto simp: x_raises_def)

lemma y_raises_Nil: "\<not> y_raises x_value []"
  by (simp add: y_raises_def)

lemma y_raises_Cons:
  "y_raises x_value ((coef, (deg_x, deg_y)) # ts) \<longleftrightarrow>
     (x_value = 0 \<and> 0 \<le> deg_y \<and> deg_x < 0) \<or> y_raises x_value ts"
  by (auto simp: y_raises_def)

lemma integrer_x_loop_eq:
  "integrer_x_loop np_log a b y_value r ts =
     (if x_raises y_value ts then Inl ZeroToNegativePower
      else Inr (r + sum_list (map (x_contribution a b y_value)
                               (filter (\<lambda>t. 0 \<le> fst (snd t)) ts))))"
proof (induction np_log a b y_value r ts rule: integrer_x_loop.induct)
  case (1 np_log a b y_value integral)
  show ?case by (simp add: x_raises_Nil)
next
  case (2 np_log a b y_value integral coef deg_x deg_y rest)
  show ?case
  proof (cases "0 \<le> deg_x")
    case False
    with "2.IH"(2) show ?thesis
      by (simp add: x_raises_Cons)
  next
    case True
    show ?thesis
    proof (cases "y_value = 0 \<and> deg_y < 0")
      case True
      with \<open>0 \<le> deg_x\<close> show ?thesis
        by (simp add: integrer_x_step_eq x_raises_Cons)
    next
      case False
      with \<open>0 \<le> deg_x\<close> have s: "integrer_x_step np_log a b y_value (coef, (deg_x, deg_y)) =
          Inr (x_contribution a b y_value (coef, (deg_x, deg_y)))"
        by (simp add: integrer_x_step_eq)
      from "2.IH"(1)[OF \<open>0 \<le> deg_x\<close> s] False \<open>0 \<le> deg_x\<close> s show ?thesis
        by (simp add: x_raises_Cons add.assoc)
    qed
  qed
qed

lemma integrer_y_loop_eq:
  "integrer_y_loop np_log c d x_value r ts =
     (if y_raises x_value ts then Inl ZeroToNegativePower
      else Inr (r + sum_list (map (y_contribution c d x_value)
                               (filter (\<lambda>t. 0 \<le> snd (snd t)) ts))))"
proof (induction np_log c d x_value r ts rule: integrer_y_loop.induct)
  case (1 np_log c d x_value integral)
  show ?case by (simp add: y_raises_Nil)
next
  case (2 np_log c d x_value integral coef deg_x deg_y rest)
  show ?case
  proof (cases "0 \<le> deg_y")
    case False
    with "2.IH"(2) show ?thesis
      by (simp add: y_raises_Cons)
  next
    case True
    show ?thesis
    proof (cases "x_value = 0 \<and> deg_x < 0")
      case True
      with \<open>0 \<le> deg_y\<close> show ?thesis
        by (simp add: integrer_y_step_eq y_raises_Cons)
    next
      case False
      with \<open>0 \<le> deg_y\<close> have s: "integrer_y_step np_log c d x_value (coef, (deg_x, deg_y)) =
          Inr (y_contribution c d x_value (coef, (deg_x, deg_y)))"
        by (simp add: integrer_y_step_eq)
      from "2.IH"(1)[OF \<open>0 \<le> deg_y\<close> s] False \<open>0 \<le> deg_y\<close> s show ?thesis
        by (simp add: y_raises_Cons add.assoc)
    qed
  qed
qed


lemma integrer_x_eq:
  "integrer_x np_log P a b y_value =
     (if x_raises y_value (coefficients P) then Inl ZeroToNegativePower
      else Inr (sum_list (map (x_contribution a b y_value)
                           (filter (\<lambda>t. 0 \<le> fst (snd t)) (coefficients P)))))"
  by (simp add: integrer_x_def integrer_x_loop_eq)

lemma integrer_y_eq:
  "integrer_y np_log P c d x_value =
     (if y_raises x_value (coefficients P) then Inl ZeroToNegativePower
      else Inr (sum_list (map (y_contribution c d x_value)
                           (filter (\<lambda>t. 0 \<le> snd (snd t)) (coefficients P)))))"
  by (simp add: integrer_y_def integrer_y_loop_eq)

text \<open>
  Claim C9, as the code has it, over exact arithmetic (float rounding and the
  \<open>OverflowError\<close> of a float power or an integer quotient are outside the statement). For
  every term list (negative exponents included), all bounds
  \<open>a\<close>, \<open>b\<close> and every fixed value, \<open>integrer_x\<close> returns the sum, over the terms with
  \<open>deg_x \<ge> 0\<close> only, of \<open>coef * y_value^deg_y * (b^(deg_x + 1) - a^(deg_x + 1)) / (deg_x + 1)\<close>,
  unless \<open>y_value\<close> is zero and one of these terms has \<open>deg_y < 0\<close>: then Python's
  \<open>0 ** deg_y\<close> raises \<open>ZeroDivisionError\<close>. Terms with \<open>deg_x < 0\<close> are skipped: they add
  nothing and raise nothing, whatever the bounds. The same holds for \<open>integrer_y\<close> with the
  two axes exchanged.
\<close>

theorem integrer_closed_form:
  "integrer_x np_log P a b y_value =
     (if y_value = 0 \<and> (\<exists>t \<in> set (coefficients P). 0 \<le> fst (snd t) \<and> snd (snd t) < 0)
      then Inl ZeroToNegativePower
      else Inr (\<Sum>t \<leftarrow> filter (\<lambda>t. 0 \<le> fst (snd t)) (coefficients P).
                  fst t * power_int y_value (snd (snd t))
                    * (power_int b (fst (snd t) + 1) - power_int a (fst (snd t) + 1))
                    / of_int (fst (snd t) + 1)))
   \<and> integrer_y np_log P c d x_value =
     (if x_value = 0 \<and> (\<exists>t \<in> set (coefficients P). 0 \<le> snd (snd t) \<and> fst (snd t) < 0)
      then Inl ZeroToNegativePower
      else Inr (\<Sum>t \<leftarrow> filter (\<lambda>t. 0 \<le> snd (snd t)) (coefficients P).
                  fst t * power_int x_value (fst (snd t))
                    * (power_int d (snd (snd t) + 1) - power_int c (snd (snd t) + 1))
                    / of_int (snd (snd t) + 1)))"
proof
  have "x_contribution a b y_value =
      (\<lambda>t. fst t * power_int y_value (snd (snd t))
                    * (power_int b (fst (snd t) + 1) - power_int a (fst (snd t) + 1))
                    / of_int (fst (snd t) + 1))"
    by (rule ext) (simp add: x_contribution_def)
  then show "integrer_x np_log P a b y_value =
     (if y_value = 0 \<and> (\<exists>t \<in> set (coefficients P). 0 \<le> fst (snd t) \<and> snd (snd t) < 0)
      then Inl ZeroToNegativePower
      else Inr (\<Sum>t \<leftarrow> filter (\<lambda>t. 0 \<le> fst (snd t)) (coefficients P).
                  fst t * power_int y_value (snd (snd t))
                    * (power_int b (fst (snd t) + 1) - power_int a (fst (snd t) + 1))
                    / of_int (fst (snd t) + 1)))"
    unfolding integrer_x_eq x_raises_def by simp
next
  have "y_contribution c d x_value =
      (\<lambda>t. fst t * power_int x_value (fst (snd t))
                    * (power_int d (snd (snd t) + 1) - power_int c (snd (snd t) + 1))
                    / of_int (snd (snd t) + 1))"
    by (rule ext) (simp add: y_contribution_def)
  then show "integrer_y np_log P c d x_value =
     (if x_value = 0 \<and> (\<exists>t \<in> set (coefficients P). 0 \<le> snd (snd t) \<and> fst (snd t) < 0)
      then Inl ZeroToNegativePower
      else Inr (\<Sum>t \<leftarrow> filter (\<lambda>t. 0 \<le> snd (snd t)) (coefficients P).
                  fst t * power_int x_value (fst (snd t))
                    * (power_int d (snd (snd t) + 1) - power_int c (snd (snd t) + 1))
                    / of_int (snd (snd t) + 1)))"
    unfolding integrer_y_eq y_raises_def by simp
qed

text \<open>With lower bound 0 and fixed value 1, on a list with exponents \<open>-1\<close> and \<open>-2\<close> on the
  integration axis: only \<open>3x^2\<close> and \<open>y^-1\<close> count along \<open>x\<close>.\<close>

theorem integrer_closed_form_witness:
  "integrer_x log_of \<lparr>degree = 2,
       coefficients = [(3, (2, 0)), (5, (- 1, 0)), (2, (- 2, 1)), (1, (0, - 1))]\<rparr> 0 2 1 = Inr 10
   \<and> integrer_y log_of \<lparr>degree = 2,
       coefficients = [(3, (2, 0)), (5, (- 1, 0)), (2, (- 2, 1)), (1, (0, - 1))]\<rparr> 0 2 1 = Inr 20"
  using integrer_closed_form [of log_of
    "\<lparr>degree = 2, coefficients = [(3, (2, 0)), (5, (- 1, 0)), (2, (- 2, 1)), (1, (0, - 1))]\<rparr>"
    0 2 1 0 2 1]
  by simp

text \<open>The term \<open>y^-1\<close> is accepted by the constructor and passes the guard of
  \<open>integrer_x\<close>; with the default \<open>y_value = 0\<close> the call raises instead of returning a sum.\<close>

theorem integrer_closed_form_counterexample:
  "Polynome2D_init [(1, (0, - 1))] 2 = Inr \<lparr>degree = 2, coefficients = [(1, (0, - 1))]\<rparr>
   \<and> integrer_x log_of \<lparr>degree = 2, coefficients = [(1, (0, - 1))]\<rparr> 1 2 0
       = Inl ZeroToNegativePower"
  by (simp add: Polynome2D_init_def validate_coefficients_def err_bind_def
      integrer_x_def integrer_x_step_def py_pow_def)


text \<open>
  Claim C10, as the code has it. The result of \<open>integrer_x\<close> and of \<open>integrer_y\<close> does not
  depend on what \<open>np.log\<close> does, so the logarithm branch is never reached; neither ever
  fails with a division by zero, the divisor \<open>deg + 1\<close> being taken under the guard
  \<open>deg \<ge> 0\<close> only. Neither is total: \<open>integrer_x\<close> raises the \<open>ZeroDivisionError\<close> of
  zero to a negative power when \<open>y_value\<close> is zero and a term with \<open>deg_x \<ge> 0\<close> has
  \<open>deg_y < 0\<close>. Over exact arithmetic that is its only failure, and it returns a number in
  every other case; the \<open>OverflowError\<close> of a float power or an integer quotient out of the
  float range is outside the statement. Likewise for \<open>integrer_y\<close>.
\<close>

theorem integrer_totality:
  "integrer_x np_log P a b y_value = integrer_x np_log' P a b y_value
   \<and> integrer_x np_log P a b y_value \<noteq> Inl DivisionByZero
   \<and> ((\<exists>v. integrer_x np_log P a b y_value = Inr v) \<longleftrightarrow>
        \<not> (y_value = 0 \<and> (\<exists>t \<in> set (coefficients P). 0 \<le> fst (snd t) \<and> snd (snd t) < 0)))
   \<and> ((\<forall>v. integrer_x np_log P a b y_value \<noteq> Inr v) \<longrightarrow>
        integrer_x np_log P a b y_value = Inl ZeroToNegativePower)
   \<and> integrer_y np_log P c d x_value = integrer_y np_log' P c d x_value
   \<and> integrer_y np_log P c d x_value \<noteq> Inl DivisionByZero
   \<and> ((\<exists>v. integrer_y np_log P c d x_value = Inr v) \<longleftrightarrow>
        \<not> (x_value = 0 \<and> (\<exists>t \<in> set (coefficients P). 0 \<le> snd (snd t) \<and> fst (snd t) < 0)))
   \<and> ((\<forall>v. integrer_y np_log P c d x_value \<noteq> Inr v) \<longrightarrow>
        integrer_y np_log P c d x_value = Inl ZeroToNegativePower)"
proof (intro conjI)
  show "integrer_x np_log P a b y_value = integrer_x np_log' P a b y_value"
    by (simp only: integrer_x_eq)
  show "integrer_x np_log P a b y_value \<noteq> Inl DivisionByZero"
    by (simp add: integrer_x_eq)
  show "(\<exists>v. integrer_x np_log P a b y_value = Inr v) \<longleftrightarrow>
        \<not> (y_value = 0 \<and> (\<exists>t \<in> set (coefficients P). 0 \<le> fst (snd t) \<and> snd (snd t) < 0))"
    by (simp add: integrer_x_eq x_raises_def)
  show "(\<forall>v. integrer_x np_log P a b y_value \<noteq> Inr v) \<longrightarrow>
        integrer_x np_log P a b y_value = Inl ZeroToNegativePower"
    by (simp add: integrer_x_eq)
  show "integrer_y np_log P c d x_value = integrer_y np_log' P c d x_value"
    by (simp only: integrer_y_eq)
  show "integrer_y np_log P c d x_value \<noteq> Inl DivisionByZero"
    by (simp add: integrer_y_eq)
  show "(\<exists>v. integrer_y np_log P c d x_value = Inr v) \<longleftrightarrow>
        \<not> (x_value = 0 \<and> (\<exists>t \<in> set (coefficients P). 0 \<le> snd (snd t) \<and> fst (snd t) < 0))"
    by (simp add: integrer_y_eq y_raises_def)
  show "(\<forall>v. integrer_y np_log P c d x_value \<noteq> Inr v) \<longrightarrow>
        integrer_y np_log P c d x_value = Inl ZeroToNegativePower"
    by (simp add: integrer_y_eq)
qed

text \<open>On the polynomial of the usage example, with lower bound and fixed value 0.\<close>

theorem integrer_totality_witness:
  "integrer_x log_of poly 0 1 0 = Inr 1 \<and> integrer_y log_of poly 0 1 0 = Inr (- 2)"
proof -
  have x: "integrer_x log_of poly 0 1 0 = Inr 1"
    by (simp add: integrer_x_def poly_def coeffs1_def integrer_x_step_def
        py_pow_def py_div_def err_bind_def)
  have y: "integrer_y log_of poly 0 1 0 = Inr (- 2)"
    by (simp add: integrer_y_def poly_def coeffs1_def integrer_y_step_def
        py_pow_def py_div_def err_bind_def)
  show ?thesis
    using integrer_totality [of log_of poly 0 1 0 log_of 0 1 0]
    by (simp add: x y)
qed

text \<open>\<open>integrer_y\<close> is not total: the term \<open>x^-1\<close> with the default \<open>x_value = 0\<close>.\<close>

theorem integrer_totality_counterexample:
  "Polynome2D_init [(1, (- 1, 0))] 2 = Inr \<lparr>degree = 2, coefficients = [(1, (- 1, 0))]\<rparr>
   \<and> integrer_y log_of \<lparr>degree = 2, coefficients = [(1, (- 1, 0))]\<rparr> 0 1 0
       = Inl ZeroToNegativePower"
  by (simp add: Polynome2D_init_def validate_coefficients_def err_bind_def
      integrer_y_def integrer_y_step_def py_pow_def)

text \<open>
  Claim C5 asks that a term whose exponent on the integration axis is \<open>-1\<close> contributes
  \<open>coef * fixed^other * ln(upper / lower)\<close>. The code tests \<open>deg_x != -1\<close> under
  \<open>deg_x >= 0\<close>, so that such a term is skipped: for \<open>x^-1\<close> on \<open>[1, 2]\<close> with
  \<open>y_value = 1\<close> the code returns 0, where the claim gives \<open>ln 2\<close>, which is not 0; and
  likewise for \<open>y^-1\<close> along \<open>y\<close>.
\<close>

theorem integrer_skips_reciprocal_term:
  "Polynome2D_init [(1, (- 1, 0))] 2 = Inr \<lparr>degree = 2, coefficients = [(1, (- 1, 0))]\<rparr>
   \<and> integrer_x log_of \<lparr>degree = 2, coefficients = [(1, (- 1, 0))]\<rparr> 1 2 1 = Inr 0
   \<and> Polynome2D_init [(1, (0, - 1))] 2 = Inr \<lparr>degree = 2, coefficients = [(1, (0, - 1))]\<rparr>
   \<and> integrer_y log_of \<lparr>degree = 2, coefficients = [(1, (0, - 1))]\<rparr> 1 2 1 = Inr 0
   \<and> log_of (2 / 1) = Inr (ln 2)
   \<and> (1::real) * power_int 1 0 * ln 2 \<noteq> 0"
  by (simp add: Polynome2D_init_def validate_coefficients_def err_bind_def
      integrer_x_def integrer_y_def log_of_def)

section \<open>Rendering\<close>

lemma repr_loop_eq:
  "repr_loop fmt acc ts = acc @ map (format_term fmt) (filter (\<lambda>t. fst t \<noteq> 0) ts)"
  by (induction fmt acc ts rule: repr_loop.induct) simp_all

lemma repr_poly_eq:
  "repr_poly fmt P =
     (if rendered_terms P = [] then ''0''
      else join '' + '' (map (format_term fmt) (rendered_terms P)))"
  by (simp add: repr_poly_def repr_loop_eq rendered_terms_def Let_def)

lemma sorted_rendered_terms: "sorted (map sort_key_of (rendered_terms P))"
  unfolding rendered_terms_def by (rule sorted_filter) (rule sorted_sort_key)

lemma mset_rendered_terms:
  "mset (rendered_terms P) = filter_mset (\<lambda>t. fst t \<noteq> 0) (mset (coefficients P))"
  by (simp add: rendered_terms_def)

lemma stable_rendered_terms:
  "filter (\<lambda>t. sort_key_of t = k) (rendered_terms P) =
     filter (\<lambda>t. sort_key_of t = k) (filter (\<lambda>t. fst t \<noteq> 0) (coefficients P))"
proof -
  have "filter (\<lambda>t. sort_key_of t = k) (rendered_terms P) =
      filter (\<lambda>t. fst t \<noteq> 0) (filter (\<lambda>t. sort_key_of t = k) (sort_key sort_key_of (coefficients P)))"
    by (simp add: rendered_terms_def conj_commute)
  also have "\<dots> = filter (\<lambda>t. fst t \<noteq> 0) (filter (\<lambda>t. sort_key_of t = k) (coefficients P))"
    by (simp only: sort_key_stable)
  also have "\<dots> = filter (\<lambda>t. sort_key_of t = k) (filter (\<lambda>t. fst t \<noteq> 0) (coefficients P))"
    by (simp add: conj_commute)
  finally show ?thesis .
qed

lemma rendered_terms_Nil:
  "rendered_terms P = [] \<longleftrightarrow> (\<forall>t \<in> set (coefficients P). fst t = 0)"
  by (simp add: rendered_terms_def filter_empty_conv)

lemma sort_key_of_le:
  "sort_key_of t \<le> sort_key_of u \<longleftrightarrow>
     fst (snd t) < fst (snd u) \<or> (fst (snd t) = fst (snd u) \<and> snd (snd t) \<le> snd (snd u))"
  by (auto simp: sort_key_of_def less_eq_prod_def)

text \<open>
  Claim C8. The text returned by \<open>__repr__\<close> is built from the terms of the polynomial in
  ascending order of the key \<open>(deg_x, deg_y)\<close>, compared lexicographically, terms with
  equal keys keeping their order; the terms shown are exactly those with a non-zero
  coefficient; each is written \<open>coef * x^deg_x * y^deg_y\<close>, the coefficient as its
  formatting gives it (a negative one with its sign); the terms are joined by \<open>" + "\<close>; and
  the text is \<open>"0"\<close> when the list is empty or every coefficient is zero.
\<close>

theorem render_sorted_nonzero:
  "sorted (map sort_key_of (rendered_terms P))
   \<and> (\<forall>t u. sort_key_of t \<le> sort_key_of u \<longleftrightarrow>
         fst (snd t) < fst (snd u) \<or> (fst (snd t) = fst (snd u) \<and> snd (snd t) \<le> snd (snd u)))
   \<and> mset (rendered_terms P) = filter_mset (\<lambda>t. fst t \<noteq> 0) (mset (coefficients P))
   \<and> (\<forall>k. filter (\<lambda>t. sort_key_of t = k) (rendered_terms P) =
          filter (\<lambda>t. sort_key_of t = k) (filter (\<lambda>t. fst t \<noteq> 0) (coefficients P)))
   \<and> repr_poly fmt P =
       (if \<forall>t \<in> set (coefficients P). fst t = 0 then ''0''
        else join '' + '' (map (format_term fmt) (rendered_terms P)))
   \<and> (\<forall>coef deg_x deg_y. format_term fmt (coef, (deg_x, deg_y)) =
          fmt coef @ '' * x^'' @ show_int deg_x @ '' * y^'' @ show_int deg_y)"
proof (intro conjI)
  show "sorted (map sort_key_of (rendered_terms P))"
    by (rule sorted_rendered_terms)
  show "\<forall>t u. sort_key_of t \<le> sort_key_of u \<longleftrightarrow>
         fst (snd t) < fst (snd u) \<or> (fst (snd t) = fst (snd u) \<and> snd (snd t) \<le> snd (snd u))"
    by (intro allI) (rule sort_key_of_le)
  show "mset (rendered_terms P) = filter_mset (\<lambda>t. fst t \<noteq> 0) (mset (coefficients P))"
    by (rule mset_rendered_terms)
  show "\<forall>k. filter (\<lambda>t. sort_key_of t = k) (rendered_terms P) =
          filter (\<lambda>t. sort_key_of t = k) (filter (\<lambda>t. fst t \<noteq> 0) (coefficients P))"
    by (intro allI) (rule stable_rendered_terms)
  show "repr_poly fmt P =
       (if \<forall>t \<in> set (coefficients P). fst t = 0 then ''0''
        else join '' + '' (map (format_term fmt) (rendered_terms P)))"
    by (simp only: repr_poly_eq rendered_terms_Nil)
  show "\<forall>coef deg_x deg_y. format_term fmt (coef, (deg_x, deg_y)) =
          fmt coef @ '' * x^'' @ show_int deg_x @ '' * y^'' @ show_int deg_y"
    by (simp add: format_term_def)
qed

text \<open>The polynomial of the usage example, a polynomial with a zero coefficient among
  others, one with zero coefficients only, and the empty one.\<close>

theorem render_sorted_nonzero_witness:
  "repr_poly fmt_int poly = ''-4 * x^0 * y^1 + 5 * x^1 * y^1 + 3 * x^2 * y^0''
   \<and> repr_poly fmt_int \<lparr>degree = 2, coefficients = [(2, (1, 0)), (0, (0, 0)), (- 3, (0, 2))]\<rparr>
       = ''-3 * x^0 * y^2 + 2 * x^1 * y^0''
   \<and> repr_poly fmt_int \<lparr>degree = 2, coefficients = [(0, (1, 1)), (0, (0, 0))]\<rparr> = ''0''
   \<and> repr_poly fmt_int \<lparr>degree = 2, coefficients = []\<rparr> = ''0''"
proof -
  have a: "repr_poly fmt_int poly = ''-4 * x^0 * y^1 + 5 * x^1 * y^1 + 3 * x^2 * y^0''"
    by (simp add: repr_poly_def poly_def coeffs1_def sort_key_of_def format_term_def fmt_int_def
        show_int_def show_nat.simps digit_char_def)
  have b: "repr_poly fmt_int \<lparr>degree = 2, coefficients = [(2, (1, 0)), (0, (0, 0)), (- 3, (0, 2))]\<rparr>
       = ''-3 * x^0 * y^2 + 2 * x^1 * y^0''"
    by (simp add: repr_poly_def sort_key_of_def format_term_def fmt_int_def
        show_int_def show_nat.simps digit_char_def)
  have c: "repr_poly fmt_int \<lparr>degree = 2, coefficients = [(0, (1, 1)), (0, (0, 0))]\<rparr> = ''0''"
    by (simp add: repr_poly_def sort_key_of_def)
  have d: "repr_poly fmt_int \<lparr>degree = 2, coefficients = []\<rparr> = ''0''"
    by (simp add: repr_poly_def)
  show ?thesis
    using render_sorted_nonzero [of poly fmt_int]
    by (simp only: a b c d simp_thms)
qed

end
